theory Spec2Isabelle
  imports Complex_Main
begin

section \<open>Particle detector: shape metrics\<close>

text \<open>
  The detector of \<^verbatim>\<open>particle_detector.py\<close> computes with Python floats. They are
  modelled as \<^typ>\<open>real\<close>: a comparison or a quotient below is the exact one, and
  rounding, infinities and NaN are outside the model.
\<close>

text \<open>
  \<^verbatim>\<open>calculate_circularity(self, area, perimeter)\<close>: the guard on a zero perimeter
  comes first, then the quotient, then \<^verbatim>\<open>min(circularity, 1.0)\<close>.
\<close>

definition calculate_circularity :: "real \<Rightarrow> real \<Rightarrow> real" where
  "calculate_circularity area perimeter =
     (if perimeter = 0 then 0
      else let circularity = 4 * pi * area / (perimeter ^ 2)
           in min circularity 1.0)"

text \<open>
  \<^verbatim>\<open>classify_shape(self, circularity, aspect_ratio)\<close>, with the nesting of the
  source: the test on circularity encloses the first test on the aspect ratio.
\<close>

definition classify_shape :: "real \<Rightarrow> real \<Rightarrow> string" where
  "classify_shape circularity aspect_ratio =
     (if circularity > 0.7 then
        (if aspect_ratio < 1.3 then ''bead'' else ''spherical'')
      else if aspect_ratio > 3.0 then ''fiber''
      else if aspect_ratio > 1.5 then ''fragment''
      else ''film'')"

text \<open>
  The classification as the specification words it: a flat chain of five cases in
  priority order.
\<close>

definition classify_shape_spec :: "real \<Rightarrow> real \<Rightarrow> string" where
  "classify_shape_spec circularity aspect_ratio =
     (if circularity > 0.7 \<and> aspect_ratio < 1.3 then ''bead''
      else if circularity > 0.7 then ''spherical''
      else if aspect_ratio > 3.0 then ''fiber''
      else if aspect_ratio > 1.5 then ''fragment''
      else ''film'')"

section \<open>Library values and failures\<close>

text \<open>
  OpenCV and numpy are not part of the repository. Every call into OpenCV is a field of
  the record \<open>cv2\<close> below: what the library returns for that argument, or the
  exception it raises (\<open>Inl\<close>). The numpy reductions used on sampled intensities are
  written out over \<^typ>\<open>real\<close> lists.
\<close>

datatype exn = Cv2Error | ValueError | ZeroDivisionError

definition bind_exn :: "exn + 'a \<Rightarrow> ('a \<Rightarrow> exn + 'b) \<Rightarrow> exn + 'b" where
  "bind_exn r k = (case r of Inl e \<Rightarrow> Inl e | Inr v \<Rightarrow> k v)"

text \<open>Float division of Python: a zero divisor raises.\<close>

definition py_div :: "real \<Rightarrow> real \<Rightarrow> exn + real" where
  "py_div a b = (if b = 0 then Inl ZeroDivisionError else Inr (a / b))"

text \<open>\<^verbatim>\<open>int(x)\<close> on a float truncates towards zero.\<close>

definition py_int :: "real \<Rightarrow> int" where
  "py_int x = (if x < 0 then \<lceil>x\<rceil> else \<lfloor>x\<rfloor>)"

definition np_mean :: "real list \<Rightarrow> real" where
  "np_mean xs = sum_list xs / real (length xs)"

definition np_std :: "real list \<Rightarrow> real" where
  "np_std xs = sqrt (np_mean (map (\<lambda>x. (x - np_mean xs)\<^sup>2) xs))"

text \<open>
  \<^verbatim>\<open>np.gradient\<close> of a one-dimensional array with unit spacing: one-sided
  differences at both ends, central differences inside, and a \<^verbatim>\<open>ValueError\<close> for
  fewer than two elements.
\<close>

definition np_gradient :: "real list \<Rightarrow> exn + real list" where
  "np_gradient xs =
     (let n = length xs in
      if n < 2 then Inl ValueError
      else Inr (map (\<lambda>i. if i = 0 then xs ! 1 - xs ! 0
                          else if i = n - 1 then xs ! (n - 1) - xs ! (n - 2)
                          else (xs ! (i + 1) - xs ! (i - 1)) / 2) [0..<n]))"

type_synonym contour = "(int \<times> int) list"

type_synonym frame = "(nat \<times> nat \<times> nat) list list"

text \<open>The tuple of \<^verbatim>\<open>cv2.fitEllipse\<close>: centre, the two axis lengths, angle.\<close>

type_synonym ellipse_fit = "(real \<times> real) \<times> (real \<times> real) \<times> real"

record moments_dict =
  m00 :: real
  m10 :: real
  m01 :: real

text \<open>
  \<open>findContours\<close> stands for lines 66 to 83 of \<^verbatim>\<open>detect_particles\<close>, from
  \<^verbatim>\<open>cvtColor\<close> to \<^verbatim>\<open>cv2.findContours\<close>; \<open>masked_region\<close> for lines 126 to
  128, the grey values under the filled contour.
\<close>

record cv2 =
  findContours :: "frame \<Rightarrow> exn + contour list"
  contourArea :: "contour \<Rightarrow> exn + real"
  moments :: "contour \<Rightarrow> exn + moments_dict"
  arcLength :: "contour \<Rightarrow> exn + real"
  fitEllipse :: "contour \<Rightarrow> exn + ellipse_fit"
  convexHull :: "contour \<Rightarrow> exn + contour"
  masked_region :: "frame \<Rightarrow> contour \<Rightarrow> exn + real list"

section \<open>Particle descriptors and the detector object\<close>

text \<open>
  The dictionary \<^verbatim>\<open>particle_info\<close>. A key that both branches of the source set is a
  plain field; a key that only one branch sets (\<^verbatim>\<open>angle\<close>, the three intensity
  statistics) is an option, \<open>None\<close> when the key is absent. \<open>ellipse\<close> is
  \<open>None\<close> where the source stores \<^verbatim>\<open>None\<close>.
\<close>

record particle =
  contour :: contour
  area :: real
  centroid :: "int \<times> int"
  perimeter :: real
  ellipse :: "ellipse_fit option"
  major_axis :: real
  minor_axis :: real
  aspect_ratio :: real
  angle :: "real option"
  circularity :: real
  shape_type :: string
  convexity :: real
  mean_intensity :: "real option"
  std_intensity :: "real option"
  texture_roughness :: "real option"

text \<open>
  \<^verbatim>\<open>collections.deque(maxlen=n)\<close>: \<^verbatim>\<open>append\<close> adds on the right and, when the
  length then exceeds \<open>maxlen\<close>, drops one element on the left.
\<close>

record 'a deque =
  maxlen :: nat
  items :: "'a list"

definition deque_new :: "nat \<Rightarrow> 'a deque" where
  "deque_new n = \<lparr>maxlen = n, items = []\<rparr>"

definition deque_append :: "'a deque \<Rightarrow> 'a \<Rightarrow> 'a deque" where
  "deque_append q x =
     (let xs = items q @ [x]
      in q\<lparr>items := (if length xs > maxlen q then tl xs else xs)\<rparr>)"

definition deque_clear :: "'a deque \<Rightarrow> 'a deque" where
  "deque_clear q = q\<lparr>items := []\<rparr>"

text \<open>
  One entry of \<^verbatim>\<open>particle_history\<close>; the keys \<^verbatim>\<open>timestamp\<close>,
  \<^verbatim>\<open>particles\<close> and \<^verbatim>\<open>count\<close> carry the prefix \<open>snap_\<close> here.
\<close>

record snapshot =
  snap_timestamp :: real
  snap_particles :: "particle list"
  snap_count :: nat

text \<open>The object returned by \<^verbatim>\<open>cv2.VideoCapture\<close>.\<close>

record capture =
  isOpened :: bool

record detector =
  camera_id :: int
  cap :: "capture option"
  is_running :: bool
  current_frame :: "frame option"
  particles :: "particle list"
  frame_count :: nat
  fps :: real
  last_frame_time :: real
  min_particle_size :: real
  max_particle_size :: real
  blur_kernel :: "nat \<times> nat"
  canny_threshold1 :: nat
  canny_threshold2 :: nat
  particle_history :: "snapshot deque"

text \<open>\<^verbatim>\<open>ParticleDetector.__init__\<close>; \<open>now\<close> is the value of \<^verbatim>\<open>time.time()\<close>.\<close>

definition ParticleDetector :: "int \<Rightarrow> real \<Rightarrow> detector" where
  "ParticleDetector cam now =
     \<lparr>camera_id = cam, cap = None, is_running = False, current_frame = None,
      particles = [], frame_count = 0, fps = 0, last_frame_time = now,
      min_particle_size = 50, max_particle_size = 10000, blur_kernel = (5, 5),
      canny_threshold1 = 50, canny_threshold2 = 150,
      particle_history = deque_new 100\<rparr>"

section \<open>The detection pipeline\<close>

text \<open>
  Lines 104 to 115: the ellipse fit for a boundary of at least five vertices, the
  circular fallback otherwise. The result is (ellipse, major axis, minor axis, aspect
  ratio, angle).
\<close>

definition fit_axes ::
  "cv2 \<Rightarrow> contour \<Rightarrow> real \<Rightarrow>
   exn + (ellipse_fit option \<times> real \<times> real \<times> real \<times> real option)" where
  "fit_axes cv c a =
     (if length c \<ge> 5 then
        bind_exn (fitEllipse cv c) (\<lambda>el.
          let axes = fst (snd el) in
          bind_exn (py_div (max (fst axes) (snd axes)) (min (fst axes) (snd axes) + 1 / 100000))
            (\<lambda>ratio.
              Inr (Some el, max (fst axes) (snd axes), min (fst axes) (snd axes), ratio,
                   Some (snd (snd el)))))
      else Inr (None, sqrt a, sqrt a, 1.0, None))"

text \<open>
  Lines 126 to 133: mean, standard deviation and roughness of the grey values under
  the contour, set only for a non-empty sample.
\<close>

definition intensity_stats ::
  "cv2 \<Rightarrow> frame \<Rightarrow> contour \<Rightarrow> exn + (real option \<times> real option \<times> real option)" where
  "intensity_stats cv fr c =
     bind_exn (masked_region cv fr c) (\<lambda>region.
       if length region > 0 then
         bind_exn (np_gradient region) (\<lambda>g.
           Inr (Some (np_mean region), Some (np_std region), Some (np_std g)))
       else Inr (None, None, None))"

text \<open>
  The body of the \<^verbatim>\<open>for contour in contours\<close> loop. \<open>Inr None\<close> is
  \<^verbatim>\<open>continue\<close>, \<open>Inr (Some p)\<close> is the descriptor handed to
  \<^verbatim>\<open>particles.append\<close>, \<open>Inl e\<close> an exception leaving the body.
\<close>

definition measure_contour ::
  "detector \<Rightarrow> cv2 \<Rightarrow> frame \<Rightarrow> contour \<Rightarrow> exn + particle option" where
  "measure_contour self cv fr c =
     bind_exn (contourArea cv c) (\<lambda>a.
       if a < min_particle_size self \<or> a > max_particle_size self then Inr None
       else bind_exn (moments cv c) (\<lambda>M.
         if m00 M = 0 then Inr None
         else
           let cx = py_int (m10 M / m00 M);
               cy = py_int (m01 M / m00 M)
           in bind_exn (arcLength cv c) (\<lambda>per.
              bind_exn (fit_axes cv c a) (\<lambda>(el, major, minor, ratio, ang).
                let circ = calculate_circularity a per;
                    shape = classify_shape circ ratio
                in bind_exn (convexHull cv c) (\<lambda>hull_pts.
                   bind_exn (contourArea cv hull_pts) (\<lambda>hull_area.
                   bind_exn (py_div a (hull_area + 1 / 100000)) (\<lambda>conv.
                   bind_exn (intensity_stats cv fr c) (\<lambda>(mean_i, std_i, rough).
                     Inr (Some \<lparr>contour = c, area = a, centroid = (cx, cy),
                                 perimeter = per, ellipse = el, major_axis = major,
                                 minor_axis = minor, aspect_ratio = ratio, angle = ang,
                                 circularity = circ, shape_type = shape,
                                 convexity = conv, mean_intensity = mean_i,
                                 std_intensity = std_i,
                                 texture_roughness = rough\<rparr>)))))))))"

text \<open>
  The loop inside the \<^verbatim>\<open>try\<close> block. The result is the value of the local list
  \<^verbatim>\<open>particles\<close> when the block is left, and the exception that left it, if any.
\<close>

fun detect_loop ::
  "detector \<Rightarrow> cv2 \<Rightarrow> frame \<Rightarrow> contour list \<Rightarrow> particle list \<Rightarrow>
   particle list \<times> exn option" where
  "detect_loop self cv fr [] acc = (acc, None)"
| "detect_loop self cv fr (c # cs) acc =
     (case measure_contour self cv fr c of
        Inl e \<Rightarrow> (acc, Some e)
      | Inr None \<Rightarrow> detect_loop self cv fr cs acc
      | Inr (Some p) \<Rightarrow> detect_loop self cv fr cs (acc @ [p]))"

definition detect_try ::
  "detector \<Rightarrow> cv2 \<Rightarrow> frame \<Rightarrow> particle list \<times> exn option" where
  "detect_try self cv fr =
     (case findContours cv fr of
        Inl e \<Rightarrow> ([], Some e)
      | Inr contours \<Rightarrow> detect_loop self cv fr contours [])"

text \<open>
  \<^verbatim>\<open>detect_particles(self, frame)\<close>: the handler of \<^verbatim>\<open>except Exception\<close> prints
  and falls through to \<^verbatim>\<open>return particles\<close>. \<open>Inl\<close> would be an exception reaching
  the caller.
\<close>

definition detect_particles :: "detector \<Rightarrow> cv2 \<Rightarrow> frame \<Rightarrow> exn + particle list" where
  "detect_particles self cv fr =
     (case detect_try self cv fr of
        (found, None) \<Rightarrow> Inr found
      | (found, Some e) \<Rightarrow> Inr found)"

text \<open>
  The descriptors that a run of the loop body appends for the contours \<open>cs\<close>, in
  order, when no body raises: the reference against which the loop is compared.
\<close>

definition appended :: "detector \<Rightarrow> cv2 \<Rightarrow> frame \<Rightarrow> contour list \<Rightarrow> particle list" where
  "appended self cv fr cs =
     concat (map (\<lambda>c. case measure_contour self cv fr c of
                          Inr (Some p) \<Rightarrow> [p] | _ \<Rightarrow> []) cs)"

section \<open>Quantification\<close>

text \<open>
  The numpy reductions of \<^verbatim>\<open>quantify_particles\<close>, called on non-empty lists only:
  minimum, maximum, median, and the percentile with linear interpolation between the
  two nearest ranks.
\<close>

definition np_min :: "real list \<Rightarrow> real" where
  "np_min xs = fold min (tl xs) (hd xs)"

definition np_max :: "real list \<Rightarrow> real" where
  "np_max xs = fold max (tl xs) (hd xs)"

definition np_median :: "real list \<Rightarrow> real" where
  "np_median xs =
     (let s = sort xs; n = length s in
      if even n then (s ! (n div 2 - 1) + s ! (n div 2)) / 2 else s ! (n div 2))"

definition np_percentile :: "real list \<Rightarrow> real \<Rightarrow> real" where
  "np_percentile xs q =
     (let s = sort xs; n = length s;
          pos = q / 100 * real (n - 1);
          lo = nat \<lfloor>pos\<rfloor>;
          hi = min (lo + 1) (n - 1)
      in s ! lo + (s ! hi - s ! lo) * (pos - real lo))"

text \<open>
  The dictionary returned by \<^verbatim>\<open>quantify_particles\<close>. The dictionary of the empty
  case has seven keys, the one of the general case fifteen: a key of the second only is
  an option, \<open>None\<close> when the key is absent. The histograms are dictionaries from
  bucket names to counts.
\<close>

record quantification =
  count :: nat
  average_size :: real
  std_size :: "real option"
  average_length :: real
  average_width :: real
  average_aspect_ratio :: "real option"
  average_circularity :: "real option"
  total_area :: real
  min_size :: "real option"
  max_size :: "real option"
  size_distribution :: "string \<rightharpoonup> nat"
  shape_distribution :: "string \<rightharpoonup> nat"
  roughness_distribution :: "(string \<rightharpoonup> nat) option"
  median_size :: "real option"
  percentile_95 :: "real option"

text \<open>\<^verbatim>\<open>p.get('std_intensity', 0)\<close>.\<close>

definition get_std_intensity :: "particle \<Rightarrow> real" where
  "get_std_intensity p = (case std_intensity p of None \<Rightarrow> 0 | Some s \<Rightarrow> s)"

text \<open>
  The loop \<^verbatim>\<open>for shape in set(shapes): shape_dist[shape] = shapes.count(shape)\<close>;
  the distinct shapes are visited in the order of \<^term>\<open>remdups shapes\<close>.
\<close>

definition count_shapes :: "string list \<Rightarrow> (string \<rightharpoonup> nat)" where
  "count_shapes shapes =
     fold (\<lambda>shape shape_dist. shape_dist(shape \<mapsto> count_list shapes shape))
       (remdups shapes) Map.empty"

text \<open>
  \<^verbatim>\<open>quantify_particles(self, particles)\<close>. Each \<^verbatim>\<open>sum(1 for ... if ...)\<close> is the
  length of a filtered list. \<^verbatim>\<open>p.get('aspect_ratio', 1.0)\<close> reads a field that every
  descriptor has.
\<close>

definition quantify_particles :: "particle list \<Rightarrow> quantification" where
  "quantify_particles ps =
     (if ps = [] then
        \<lparr>count = 0, average_size = 0, std_size = None, average_length = 0,
         average_width = 0, average_aspect_ratio = None, average_circularity = None,
         total_area = 0, min_size = None, max_size = None,
         size_distribution = Map.empty, shape_distribution = Map.empty,
         roughness_distribution = None, median_size = None, percentile_95 = None\<rparr>
      else
        let areas = map area ps;
            lengths = map major_axis ps;
            widths = map minor_axis ps;
            shapes = map shape_type ps;
            aspect_ratios = map aspect_ratio ps;
            circularities = map circularity ps;
            size_dist =
              [''tiny'' \<mapsto> length (filter (\<lambda>a. a < 100) areas),
               ''small'' \<mapsto> length (filter (\<lambda>a. 100 \<le> a \<and> a < 500) areas),
               ''medium'' \<mapsto> length (filter (\<lambda>a. 500 \<le> a \<and> a < 2000) areas),
               ''large'' \<mapsto> length (filter (\<lambda>a. a \<ge> 2000) areas)];
            shape_dist = count_shapes shapes;
            roughness_dist =
              [''smooth'' \<mapsto> length (filter (\<lambda>p. get_std_intensity p < 20) ps),
               ''rough'' \<mapsto>
                 length (filter (\<lambda>p. 20 \<le> get_std_intensity p \<and> get_std_intensity p < 50) ps),
               ''weathered'' \<mapsto> length (filter (\<lambda>p. get_std_intensity p \<ge> 50) ps)]
        in \<lparr>count = length ps,
            average_size = np_mean areas,
            std_size = Some (np_std areas),
            average_length = np_mean lengths,
            average_width = np_mean widths,
            average_aspect_ratio = Some (np_mean aspect_ratios),
            average_circularity = Some (np_mean circularities),
            total_area = sum_list areas,
            min_size = Some (np_min areas),
            max_size = Some (np_max areas),
            size_distribution = size_dist,
            shape_distribution = shape_dist,
            roughness_distribution = Some roughness_dist,
            median_size = Some (np_median areas),
            percentile_95 = Some (np_percentile areas 95)\<rparr>)"

section \<open>The capture loop\<close>

text \<open>
  \<^verbatim>\<open>initialize_camera(self)\<close>. The parameter \<open>VideoCapture\<close> is the library
  constructor: a handle, or the exception it raises. The three \<^verbatim>\<open>cap.set\<close> calls
  change nothing that is modelled. Every exception ends in \<^verbatim>\<open>return False\<close>; the
  handle stays stored when it is not opened.
\<close>

definition initialize_camera :: "(int \<Rightarrow> exn + capture) \<Rightarrow> detector \<Rightarrow> detector \<times> bool" where
  "initialize_camera VideoCapture self =
     (case VideoCapture (camera_id self) of
        Inl e \<Rightarrow> (self, False)
      | Inr c \<Rightarrow>
          let self1 = self\<lparr>cap := Some c\<rparr>
          in if \<not> isOpened c then (self1, False) else (self1, True))"

text \<open>\<^verbatim>\<open>release_camera(self)\<close>.\<close>

definition release_camera :: "detector \<Rightarrow> detector" where
  "release_camera self = (case cap self of None \<Rightarrow> self | Some c \<Rightarrow> self\<lparr>cap := None\<rparr>)"

text \<open>\<^verbatim>\<open>stop_capture(self)\<close> and \<^verbatim>\<open>get_current_particles(self)\<close>; the copy of a list is the list.\<close>

definition stop_capture :: "detector \<Rightarrow> detector" where
  "stop_capture self = self\<lparr>is_running := False\<rparr>"

definition get_current_particles :: "detector \<Rightarrow> particle list" where
  "get_current_particles self = particles self"

text \<open>
  What the outside delivers during one iteration of the loop: the result of
  \<^verbatim>\<open>cap.read()\<close> (\<open>None\<close> when \<^verbatim>\<open>ret\<close> is false), the values of
  \<^verbatim>\<open>time.time()\<close> and \<^verbatim>\<open>datetime.now()\<close>, and whether another thread called
  \<^verbatim>\<open>stop_capture\<close> during the iteration. The flag is only read at the top of the
  loop, so a call at any moment of an iteration acts as a call at its end.
\<close>

record tick =
  grabbed :: "frame option"
  clock :: real
  stamp :: real
  stop_called :: bool

text \<open>
  The body of \<^verbatim>\<open>while self.is_running\<close>: the detector after the body, and whether
  the loop goes on to its next test. It does not after \<^verbatim>\<open>break\<close> and after an
  exception, which the handler of \<^verbatim>\<open>capture_loop\<close> catches: a failing
  \<^verbatim>\<open>detect_particles\<close>, or the division for \<^verbatim>\<open>fps\<close> by zero.
\<close>

definition capture_iteration :: "cv2 \<Rightarrow> tick \<Rightarrow> detector \<Rightarrow> detector \<times> bool" where
  "capture_iteration cv t self =
     (case grabbed t of
        None \<Rightarrow> (self, False)
      | Some fr \<Rightarrow>
          (case detect_particles self cv fr of
             Inl e \<Rightarrow> (self, False)
           | Inr found \<Rightarrow>
               let self1 = self\<lparr>particles := found\<rparr>;
                   self2 = self1\<lparr>particle_history :=
                     deque_append (particle_history self1)
                       \<lparr>snap_timestamp = stamp t, snap_particles = particles self1,
                        snap_count = length (particles self1)\<rparr>\<rparr>
               in case py_div 1.0 (clock t - last_frame_time self2 + 1 / 100000) of
                    Inl e \<Rightarrow> (self2, False)
                  | Inr rate \<Rightarrow>
                      (self2\<lparr>fps := rate, last_frame_time := clock t,
                             frame_count := frame_count self2 + 1,
                             current_frame := Some fr\<rparr>, True)))"

text \<open>
  The loop over the ticks of a session; past the last tick the camera delivers no
  frame.
\<close>

fun capture_while :: "cv2 \<Rightarrow> tick list \<Rightarrow> detector \<Rightarrow> detector" where
  "capture_while cv [] self = self"
| "capture_while cv (t # ts) self =
     (if \<not> is_running self then self
      else case capture_iteration cv t self of
        (self1, False) \<Rightarrow> self1
      | (self1, True) \<Rightarrow>
          capture_while cv ts (if stop_called t then stop_capture self1 else self1))"

text \<open>The \<^verbatim>\<open>finally\<close> block of \<^verbatim>\<open>capture_loop\<close>.\<close>

definition capture_finally :: "detector \<Rightarrow> detector" where
  "capture_finally self = (release_camera self)\<lparr>is_running := False\<rparr>"

text \<open>\<^verbatim>\<open>capture_loop(self)\<close>.\<close>

definition capture_loop ::
  "(int \<Rightarrow> exn + capture) \<Rightarrow> cv2 \<Rightarrow> tick list \<Rightarrow> detector \<Rightarrow> detector" where
  "capture_loop VideoCapture cv ticks self =
     (case initialize_camera VideoCapture self of
        (self1, False) \<Rightarrow> self1
      | (self1, True) \<Rightarrow>
          capture_finally (capture_while cv ticks (self1\<lparr>is_running := True\<rparr>)))"

text \<open>
  \<^verbatim>\<open>start_capture(self)\<close> has no \<^verbatim>\<open>return\<close> statement: the caller receives
  \<^verbatim>\<open>None\<close>, the first component. The second component is the detector once the
  thread it starts has run \<^verbatim>\<open>capture_loop\<close>.
\<close>

definition start_capture ::
  "(int \<Rightarrow> exn + capture) \<Rightarrow> cv2 \<Rightarrow> tick list \<Rightarrow> detector \<Rightarrow> bool option \<times> detector" where
  "start_capture VideoCapture cv ticks self =
     (if \<not> is_running self then (None, capture_loop VideoCapture cv ticks self)
      else (None, self))"

text \<open>The camera does not open: the constructor raises or the handle is not opened.\<close>

definition fails_to_open :: "(int \<Rightarrow> exn + capture) \<Rightarrow> detector \<Rightarrow> bool" where
  "fails_to_open VideoCapture self =
     (case VideoCapture (camera_id self) of Inl e \<Rightarrow> True | Inr c \<Rightarrow> \<not> isOpened c)"

text \<open>
  The detectors that the operations produce from a new one, in any interleaving at the
  grain of one loop iteration: an iteration, a whole start, a stop, and the
  \<^verbatim>\<open>particle_history.clear()\<close> of \<^verbatim>\<open>server.py\<close>.
\<close>

inductive reachable :: "detector \<Rightarrow> bool" where
  created: "reachable (ParticleDetector cam now)"
| iteration: "reachable s \<Longrightarrow> reachable (fst (capture_iteration cv t s))"
| started: "reachable s \<Longrightarrow> reachable (snd (start_capture VideoCapture cv ticks s))"
| stopped: "reachable s \<Longrightarrow> reachable (stop_capture s)"
| cleared: "reachable s \<Longrightarrow>
     reachable (s\<lparr>particle_history := deque_clear (particle_history s)\<rparr>)"

text \<open>The bound on the history buffer, as an invariant of the detector.\<close>

definition history_ok :: "detector \<Rightarrow> bool" where
  "history_ok s \<longleftrightarrow> maxlen (particle_history s) = 100
     \<and> length (items (particle_history s)) \<le> 100"

section \<open>Example inputs\<close>

text \<open>
  A frame and two library behaviours on it, used to run the definitions. In
  \<open>cv_scene\<close> the library reports three contours: a speck of area 4, a regular
  octagon of area 2520 whose fitted ellipse has two equal axes of 60, and a square of
  four vertices and area 64. In \<open>cv_fault\<close> the ellipse fit raises on every contour
  but the octagon.
\<close>

definition octagon :: contour where
  "octagon = [(130, 100), (121, 121), (100, 130), (79, 121),
              (70, 100), (79, 79), (100, 70), (121, 79)]"

definition speck :: contour where
  "speck = [(10, 10), (12, 10), (12, 12), (10, 12)]"

definition sample_frame :: frame where
  "sample_frame = [[(0, 0, 0), (255, 255, 255)], [(255, 255, 255), (0, 0, 0)]]"

definition quad :: contour where
  "quad = [(20, 40), (28, 40), (28, 48), (20, 48)]"

definition cv_scene :: cv2 where
  "cv_scene =
     \<lparr>findContours = (\<lambda>fr. Inr [speck, octagon, quad]),
      contourArea = (\<lambda>c. if c = speck then Inr 4 else if c = quad then Inr 64 else Inr 2520),
      moments = (\<lambda>c. if c = quad then Inr \<lparr>m00 = 64, m10 = 1536, m01 = 2816\<rparr>
                        else Inr \<lparr>m00 = 2520, m10 = 252000, m01 = 252000\<rparr>),
      arcLength = (\<lambda>c. if c = quad then Inr 32 else Inr 183),
      fitEllipse = (\<lambda>c. Inr ((100, 100), (60, 60), 0)),
      convexHull = (\<lambda>c. Inr c),
      masked_region = (\<lambda>fr c. Inr [200, 200, 200])\<rparr>"

definition cv_fault :: cv2 where
  "cv_fault = cv_scene
     \<lparr>findContours := (\<lambda>fr. Inr [octagon, speck, rev octagon, quad]),
      fitEllipse := (\<lambda>c. if c = octagon then Inr ((100, 100), (60, 60), 0)
                          else Inl Cv2Error)\<rparr>"

definition octagon_particle :: particle where
  "octagon_particle =
     \<lparr>contour = octagon, area = 2520, centroid = (100, 100), perimeter = 183,
      ellipse = Some ((100, 100), (60, 60), 0), major_axis = 60, minor_axis = 60,
      aspect_ratio = 6000000 / 6000001, angle = Some 0,
      circularity = calculate_circularity 2520 183,
      shape_type = classify_shape (calculate_circularity 2520 183) (6000000 / 6000001),
      convexity = 252000000 / 252000001,
      mean_intensity = Some (np_mean [200, 200, 200]),
      std_intensity = Some (np_std [200, 200, 200]),
      texture_roughness = Some (np_std (projr (np_gradient [200, 200, 200])))\<rparr>"

definition quad_particle :: particle where
  "quad_particle =
     \<lparr>contour = quad, area = 64, centroid = (24, 44), perimeter = 32,
      ellipse = None, major_axis = sqrt 64, minor_axis = sqrt 64,
      aspect_ratio = 1, angle = None,
      circularity = calculate_circularity 64 32,
      shape_type = classify_shape (calculate_circularity 64 32) 1,
      convexity = 6400000 / 6400001,
      mean_intensity = Some (np_mean [200, 200, 200]),
      std_intensity = Some (np_std [200, 200, 200]),
      texture_roughness = Some (np_std (projr (np_gradient [200, 200, 200])))\<rparr>"

text \<open>A descriptor without intensity statistics, as for an empty sample.\<close>

definition bare_particle :: particle where
  "bare_particle = quad_particle
     \<lparr>mean_intensity := None, std_intensity := None, texture_roughness := None\<rparr>"

text \<open>
  Cameras that open, that stay closed and that raise; three ticks of a session, the
  second with a stop request; and a running detector that has published one particle.
\<close>

definition camera_ok :: "int \<Rightarrow> exn + capture" where
  "camera_ok cam = Inr \<lparr>isOpened = True\<rparr>"

definition camera_closed :: "int \<Rightarrow> exn + capture" where
  "camera_closed cam = Inr \<lparr>isOpened = False\<rparr>"

definition camera_raises :: "int \<Rightarrow> exn + capture" where
  "camera_raises cam = Inl Cv2Error"

definition sample_ticks :: "tick list" where
  "sample_ticks =
     [\<lparr>grabbed = Some sample_frame, clock = 1, stamp = 1, stop_called = False\<rparr>,
      \<lparr>grabbed = Some sample_frame, clock = 2, stamp = 2, stop_called = True\<rparr>,
      \<lparr>grabbed = Some sample_frame, clock = 3, stamp = 3, stop_called = False\<rparr>]"

definition running_detector :: detector where
  "running_detector =
     ParticleDetector 0 0\<lparr>is_running := True, particles := [octagon_particle]\<rparr>"

section \<open>Auxiliary facts\<close>

lemma bind_exn_Inr_iff:
  "bind_exn r k = Inr y \<longleftrightarrow> (\<exists>v. r = Inr v \<and> k v = Inr y)"
  by (cases r) (simp_all add: bind_exn_def)

lemma fit_axes_Inr:
  assumes "fit_axes cv c a = Inr (el, major, minor, ratio, ang)"
  shows "(el = None \<longrightarrow> length c < 5 \<and> ratio = 1 \<and> major = sqrt a \<and> minor = sqrt a)
       \<and> (el \<noteq> None \<longrightarrow> 5 \<le> length c \<and> minor + 1 / 100000 \<noteq> 0
              \<and> ratio = major / (minor + 1 / 100000) \<and> minor \<le> major)"
  using assms
  by (auto simp: fit_axes_def bind_exn_Inr_iff py_div_def Let_def split: if_splits)

lemma measure_contour_Some:
  assumes "measure_contour self cv fr c = Inr (Some p)"
  shows "contourArea cv c = Inr (area p)"
    and "contour p = c"
    and "min_particle_size self \<le> area p"
    and "area p \<le> max_particle_size self"
    and "fit_axes cv c (area p) =
           Inr (ellipse p, major_axis p, minor_axis p, aspect_ratio p, angle p)"
  using assms
  by (auto simp: measure_contour_def bind_exn_Inr_iff Let_def split: if_splits prod.splits)

lemma detect_loop_fst:
  "fst (detect_loop self cv fr cs acc) =
     acc @ appended self cv fr (takeWhile (\<lambda>c. \<not> isl (measure_contour self cv fr c)) cs)"
proof (induction cs arbitrary: acc)
  case Nil
  show ?case by (simp add: appended_def)
next
  case (Cons c cs)
  show ?case
  proof (cases "measure_contour self cv fr c")
    case (Inl e)
    then show ?thesis by (simp add: appended_def)
  next
    case (Inr r)
    then show ?thesis
      using Cons.IH by (cases r) (simp_all add: appended_def)
  qed
qed

lemma detect_loop_snd:
  "snd (detect_loop self cv fr cs acc) = None
     \<longleftrightarrow> (\<forall>c \<in> set cs. \<not> isl (measure_contour self cv fr c))"
proof (induction cs arbitrary: acc)
  case Nil
  show ?case by simp
next
  case (Cons c cs)
  show ?case
  proof (cases "measure_contour self cv fr c")
    case (Inl e)
    then show ?thesis by simp
  next
    case (Inr r)
    then show ?thesis
      using Cons.IH by (cases r) simp_all
  qed
qed

lemma detect_particles_eq:
  "detect_particles self cv fr = Inr (fst (detect_try self cv fr))"
  by (cases "detect_try self cv fr") (simp add: detect_particles_def split: option.splits)

lemma appended_set:
  "p \<in> set (appended self cv fr cs)
     \<longleftrightarrow> (\<exists>c \<in> set cs. measure_contour self cv fr c = Inr (Some p))"
  by (induction cs) (auto simp: appended_def split: sum.splits option.splits)

lemma detect_particles_mem:
  assumes "detect_particles self cv fr = Inr ps" and "p \<in> set ps"
  shows "\<exists>c. measure_contour self cv fr c = Inr (Some p)"
proof (cases "findContours cv fr")
  case (Inl e)
  then show ?thesis
    using assms by (simp add: detect_particles_eq detect_try_def)
next
  case (Inr cs)
  then have "p \<in> set (appended self cv fr
      (takeWhile (\<lambda>c. \<not> isl (measure_contour self cv fr c)) cs))"
    using assms by (simp add: detect_particles_eq detect_try_def detect_loop_fst)
  then show ?thesis
    by (auto simp: appended_set)
qed

lemma measure_octagon:
  "measure_contour (ParticleDetector 0 0) cv_scene sample_frame octagon =
     Inr (Some octagon_particle)"
  by (simp add: measure_contour_def cv_scene_def ParticleDetector_def bind_exn_def
      fit_axes_def intensity_stats_def np_gradient_def py_div_def py_int_def Let_def
      octagon_def speck_def quad_def octagon_particle_def)

lemma measure_quad:
  "measure_contour (ParticleDetector 0 0) cv_scene sample_frame quad =
     Inr (Some quad_particle)"
  by (simp add: measure_contour_def cv_scene_def ParticleDetector_def bind_exn_def
      fit_axes_def intensity_stats_def np_gradient_def py_div_def py_int_def Let_def
      speck_def quad_def quad_particle_def)

lemma measure_speck:
  "measure_contour (ParticleDetector 0 0) cv_scene sample_frame speck = Inr None"
  by (simp add: measure_contour_def cv_scene_def ParticleDetector_def bind_exn_def)

lemma detect_scene:
  "detect_particles (ParticleDetector 0 0) cv_scene sample_frame =
     Inr [octagon_particle, quad_particle]"
proof -
  have "findContours cv_scene sample_frame = Inr [speck, octagon, quad]"
    by (simp add: cv_scene_def)
  then show ?thesis
    by (simp add: detect_particles_eq detect_try_def measure_speck measure_octagon
        measure_quad)
qed

lemma measure_fault_octagon:
  "measure_contour (ParticleDetector 0 0) cv_fault sample_frame octagon =
     Inr (Some octagon_particle)"
  by (simp add: measure_contour_def cv_fault_def cv_scene_def ParticleDetector_def
      bind_exn_def fit_axes_def intensity_stats_def np_gradient_def py_div_def py_int_def
      Let_def octagon_def speck_def quad_def octagon_particle_def)

lemma measure_fault_speck:
  "measure_contour (ParticleDetector 0 0) cv_fault sample_frame speck = Inr None"
  by (simp add: measure_contour_def cv_fault_def cv_scene_def ParticleDetector_def
      bind_exn_def)

lemma measure_fault_rev:
  "measure_contour (ParticleDetector 0 0) cv_fault sample_frame (rev octagon) =
     Inl Cv2Error"
  by (simp add: measure_contour_def cv_fault_def cv_scene_def ParticleDetector_def
      bind_exn_def fit_axes_def Let_def octagon_def speck_def quad_def)

lemma detect_try_fault:
  "detect_try (ParticleDetector 0 0) cv_fault sample_frame =
     ([octagon_particle], Some Cv2Error)"
proof -
  have "findContours cv_fault sample_frame = Inr [octagon, speck, rev octagon, quad]"
    by (simp add: cv_fault_def)
  then show ?thesis
    by (simp add: detect_try_def measure_fault_octagon measure_fault_speck
        measure_fault_rev)
qed

lemma fold_upd_map:
  "fold (\<lambda>k m. m(k \<mapsto> f k)) ks m0 = (\<lambda>s. if s \<in> set ks then Some (f s) else m0 s)"
  by (induction ks arbitrary: m0) (auto simp: fun_eq_iff)

lemma count_shapes_eq:
  "count_shapes shapes = (\<lambda>s. if s \<in> set shapes then Some (count_list shapes s) else None)"
  by (simp add: count_shapes_def fold_upd_map)

lemma count_shapes_sum:
  "(\<Sum>s \<in> dom (count_shapes shapes). the (count_shapes shapes s)) = length shapes"
proof -
  have d: "dom (count_shapes shapes) = set shapes"
    by (auto simp: count_shapes_eq split: if_splits)
  have "(\<Sum>s \<in> set shapes. the (count_shapes shapes s)) = (\<Sum>s \<in> set shapes. count_list shapes s)"
    by (rule sum.cong) (simp_all add: count_shapes_eq)
  also have "\<dots> = length shapes"
    by (rule sum_count_set) simp_all
  finally show ?thesis
    by (simp add: d)
qed

lemma size_buckets_partition:
  "length (filter (\<lambda>a. a < 100) xs) + length (filter (\<lambda>a. 100 \<le> a \<and> a < 500) xs)
     + length (filter (\<lambda>a. 500 \<le> a \<and> a < 2000) xs) + length (filter (\<lambda>a. a \<ge> 2000) xs)
   = length (xs :: real list)"
  by (induction xs) auto

lemma roughness_buckets_partition:
  "length (filter (\<lambda>p. f p < 20) xs) + length (filter (\<lambda>p. 20 \<le> f p \<and> f p < 50) xs)
     + length (filter (\<lambda>p. f p \<ge> 50) xs)
   = length xs" for f :: "'a \<Rightarrow> real"
  by (induction xs) auto

lemma std_flat: "np_std [200, 200, 200] = 0"
  by (simp add: np_std_def np_mean_def)

lemma measure_contour_cong:
  assumes "min_particle_size s = min_particle_size s'"
    and "max_particle_size s = max_particle_size s'"
  shows "measure_contour s cv fr c = measure_contour s' cv fr c"
  using assms by (simp add: measure_contour_def)

lemma detect_loop_cong:
  assumes "min_particle_size s = min_particle_size s'"
    and "max_particle_size s = max_particle_size s'"
  shows "detect_loop s cv fr cs acc = detect_loop s' cv fr cs acc"
  by (induction cs arbitrary: acc)
    (auto simp: measure_contour_cong [OF assms] split: sum.splits option.splits)

lemma detect_particles_cong:
  assumes "min_particle_size s = min_particle_size s'"
    and "max_particle_size s = max_particle_size s'"
  shows "detect_particles s cv fr = detect_particles s' cv fr"
  by (simp add: detect_particles_def detect_try_def detect_loop_cong [OF assms]
      split: sum.splits)

lemma deque_append_length:
  "length (items q) \<le> maxlen q \<Longrightarrow> length (items (deque_append q x)) \<le> maxlen q"
  by (simp add: deque_append_def Let_def)

lemma deque_append_maxlen [simp]: "maxlen (deque_append q x) = maxlen q"
  by (simp add: deque_append_def Let_def)

lemma capture_iteration_history:
  "history_ok s \<Longrightarrow> history_ok (fst (capture_iteration cv t s))"
  using deque_append_length [of "particle_history s"]
  by (auto simp: capture_iteration_def history_ok_def Let_def detect_particles_eq py_div_def
      split: option.splits)

lemma stop_capture_history: "history_ok s \<Longrightarrow> history_ok (stop_capture s)"
  by (simp add: history_ok_def stop_capture_def)

lemma capture_while_history:
  "history_ok s \<Longrightarrow> history_ok (capture_while cv ts s)"
proof (induction ts arbitrary: s)
  case Nil
  then show ?case by simp
next
  case (Cons t ts)
  obtain s1 go where it: "capture_iteration cv t s = (s1, go)"
    by (cases "capture_iteration cv t s")
  have ok1: "history_ok s1"
    using capture_iteration_history [OF Cons.prems, of cv t] it by simp
  then have "history_ok (if stop_called t then stop_capture s1 else s1)"
    by (simp add: stop_capture_history)
  then have "history_ok (capture_while cv ts (if stop_called t then stop_capture s1 else s1))"
    by (rule Cons.IH)
  then show ?case
    using Cons.prems ok1 it by (cases go) simp_all
qed

lemma capture_loop_history:
  "history_ok s \<Longrightarrow> history_ok (capture_loop VideoCapture cv ts s)"
proof -
  assume ok: "history_ok s"
  have fin: "history_ok (capture_finally u)" if "history_ok u" for u
    using that by (simp add: capture_finally_def release_camera_def history_ok_def
        split: option.splits)
  have run: "history_ok (capture_while cv ts (u\<lparr>is_running := True\<rparr>))" if "history_ok u" for u
    by (rule capture_while_history) (use that in \<open>simp add: history_ok_def\<close>)
  show ?thesis
    using ok fin run
    by (auto simp: capture_loop_def initialize_camera_def Let_def history_ok_def
        split: sum.splits)
qed

lemma reachable_history: "reachable s \<Longrightarrow> history_ok s"
proof (induction rule: reachable.induct)
  case (created cam now)
  show ?case by (simp add: history_ok_def ParticleDetector_def deque_new_def)
next
  case (iteration s cv t)
  then show ?case by (simp add: capture_iteration_history)
next
  case (started s VideoCapture cv ticks)
  then show ?case by (simp add: start_capture_def capture_loop_history)
next
  case (stopped s)
  then show ?case by (simp add: stop_capture_history)
next
  case (cleared s)
  then show ?case by (simp add: history_ok_def deque_clear_def)
qed

lemma capture_iteration_grabbed:
  assumes "grabbed t = Some fr"
  shows "particles (fst (capture_iteration cv t s)) = projr (detect_particles s cv fr)"
    and "particle_history (fst (capture_iteration cv t s)) =
           deque_append (particle_history s)
             \<lparr>snap_timestamp = stamp t, snap_particles = projr (detect_particles s cv fr),
              snap_count = length (projr (detect_particles s cv fr))\<rparr>"
  using assms
  by (simp_all add: capture_iteration_def detect_particles_eq Let_def py_div_def)

lemma capture_while_stopped: "\<not> is_running s \<Longrightarrow> capture_while cv ts s = s"
  by (cases ts) simp_all

lemma deque_append_full:
  "0 < maxlen q \<Longrightarrow> length (items q) = maxlen q \<Longrightarrow>
     items (deque_append q x) = tl (items q) @ [x]"
  by (cases "items q") (simp_all add: deque_append_def Let_def)

lemma deque_append_room:
  "length (items q) < maxlen q \<Longrightarrow> items (deque_append q x) = items q @ [x]"
  by (simp add: deque_append_def Let_def)

lemma detect_scene_any:
  assumes "min_particle_size s = 50" and "max_particle_size s = 10000"
  shows "detect_particles s cv_scene sample_frame = Inr [octagon_particle, quad_particle]"
proof -
  have lo: "min_particle_size s = min_particle_size (ParticleDetector 0 0)"
    and hi: "max_particle_size s = max_particle_size (ParticleDetector 0 0)"
    using assms by (simp_all add: ParticleDetector_def)
  show ?thesis
    using detect_particles_cong [OF lo hi, of cv_scene sample_frame] detect_scene
    by (rule trans)
qed

lemma capture_iteration_bounds:
  "min_particle_size (fst (capture_iteration cv t s)) = min_particle_size s"
  "max_particle_size (fst (capture_iteration cv t s)) = max_particle_size s"
  by (auto simp: capture_iteration_def Let_def detect_particles_eq py_div_def
      split: option.splits)

lemma start_capture_returns_none:
  "fst (start_capture VideoCapture cv ticks s) = None"
  by (simp add: start_capture_def)

lemma capture_finally_particles: "particles (capture_finally s) = particles s"
  by (simp add: capture_finally_def release_camera_def split: option.splits)

lemma capture_while_stop_requested:
  assumes "is_running s" and "grabbed t = Some fr" and "stop_called t"
  shows "particles (capture_while cv (t # ts) s) = projr (detect_particles s cv fr)"
proof -
  obtain s1 go where it: "capture_iteration cv t s = (s1, go)"
    by (cases "capture_iteration cv t s")
  have p1: "particles s1 = projr (detect_particles s cv fr)"
    using capture_iteration_grabbed(1) [OF assms(2), of cv s] it by simp
  have "capture_while cv ts (stop_capture s1) = stop_capture s1"
    by (rule capture_while_stopped) (simp add: stop_capture_def)
  then have "capture_while cv (t # ts) s = (if go then stop_capture s1 else s1)"
    using assms it by simp
  then show ?thesis
    using p1 by (simp add: stop_capture_def)
qed

lemma detect_running_detector:
  "detect_particles running_detector cv_scene sample_frame
     = Inr [octagon_particle, quad_particle]"
  by (rule detect_scene_any) (simp_all add: running_detector_def ParticleDetector_def)

section \<open>Shape classification\<close>

text \<open>
  C1. For every pair (circularity, aspect ratio) the classifier of the source returns
  the category of the specification's priority chain: bead, else spherical, else fiber,
  else fragment, else film. Being a HOL function of these two arguments alone, it is
  deterministic and pure.
\<close>

theorem classify_shape_priority:
  "classify_shape c a = classify_shape_spec c a"
  by (simp add: classify_shape_def classify_shape_spec_def)

section \<open>Circularity\<close>

text \<open>
  C2. For a non-negative area the circularity is the quotient
  \<open>4\<pi>\<cdot>area / perimeter\<^sup>2\<close> capped at 1, it lies between 0 and 1, and it is 0 for a
  zero perimeter.
\<close>

theorem calculate_circularity_clamped:
  assumes "0 \<le> a"
  shows "(p \<noteq> 0 \<longrightarrow> calculate_circularity a p = min (4 * pi * a / p\<^sup>2) 1)
       \<and> (p = 0 \<longrightarrow> calculate_circularity a p = 0)
       \<and> 0 \<le> calculate_circularity a p
       \<and> calculate_circularity a p \<le> 1"
proof -
  have "0 \<le> 4 * pi * a / p\<^sup>2"
    using assms by simp
  then show ?thesis
    by (simp add: calculate_circularity_def Let_def)
qed

theorem calculate_circularity_clamped_witness:
  "(0::real) \<le> 50
   \<and> calculate_circularity 50 10 = 1
   \<and> calculate_circularity 50 0 = 0
   \<and> 0 \<le> calculate_circularity 50 10 \<and> calculate_circularity 50 10 \<le> 1"
proof -
  have two: "2 \<le> pi" by (rule pi_ge_two)
  have "(1::real) \<le> 4 * pi * 50 / 10\<^sup>2"
    using two by simp
  then show ?thesis
    using calculate_circularity_clamped [of 50 10] calculate_circularity_clamped [of 50 0]
    by simp
qed

section \<open>Size bounds of detected particles\<close>

text \<open>
  C3. Every descriptor in the list that the detection pipeline returns has an area
  within the inclusive bounds \<open>min_particle_size\<close> and \<open>max_particle_size\<close> of the
  detector, and this area is the one the library measured on its contour; a contour
  whose measured area lies outside the bounds is skipped by the loop body and is the
  contour of no returned descriptor. A new detector has the bounds 50 and 10000.
\<close>

theorem detect_particles_area_bounds:
  assumes "detect_particles self cv fr = Inr ps"
  shows "(\<forall>p \<in> set ps. min_particle_size self \<le> area p \<and> area p \<le> max_particle_size self
            \<and> contourArea cv (contour p) = Inr (area p))
       \<and> (\<forall>c a. contourArea cv c = Inr a
              \<and> (a < min_particle_size self \<or> a > max_particle_size self)
            \<longrightarrow> measure_contour self cv fr c = Inr None \<and> c \<notin> contour ` set ps)
       \<and> min_particle_size (ParticleDetector cam now) = 50
       \<and> max_particle_size (ParticleDetector cam now) = 10000"
proof -
  have mem: "min_particle_size self \<le> area p \<and> area p \<le> max_particle_size self
      \<and> contourArea cv (contour p) = Inr (area p)" if pin: "p \<in> set ps" for p
  proof -
    obtain c where "measure_contour self cv fr c = Inr (Some p)"
      using detect_particles_mem [OF assms pin] by blast
    then show ?thesis
      using measure_contour_Some [of self cv fr c p] by simp
  qed
  have rej: "measure_contour self cv fr c = Inr None \<and> c \<notin> contour ` set ps"
    if "contourArea cv c = Inr a"
      and "a < min_particle_size self \<or> a > max_particle_size self" for c a
  proof
    show "measure_contour self cv fr c = Inr None"
      using that by (auto simp: measure_contour_def bind_exn_def)
    show "c \<notin> contour ` set ps"
    proof
      assume "c \<in> contour ` set ps"
      then obtain p where "p \<in> set ps" and "contour p = c"
        by auto
      then show False
        using mem [of p] that by auto
    qed
  qed
  show ?thesis
    using mem rej by (simp add: ParticleDetector_def)
qed

theorem detect_particles_area_bounds_witness:
  "detect_particles (ParticleDetector 0 0) cv_scene sample_frame
     = Inr [octagon_particle, quad_particle]
   \<and> map area [octagon_particle, quad_particle] = [2520, 64]
   \<and> min_particle_size (ParticleDetector 0 0) = 50
   \<and> max_particle_size (ParticleDetector 0 0) = 10000
   \<and> contourArea cv_scene speck = Inr 4
   \<and> measure_contour (ParticleDetector 0 0) cv_scene sample_frame speck = Inr None
   \<and> speck \<notin> contour ` set [octagon_particle, quad_particle]"
proof -
  have small: "contourArea cv_scene speck = Inr 4"
    by (simp add: cv_scene_def)
  show ?thesis
    using detect_particles_area_bounds [OF detect_scene, of 0 0] small
    by (simp add: detect_scene octagon_particle_def quad_particle_def)
qed

section \<open>Aspect ratio of detected particles\<close>

text \<open>
  C5, as stated: every produced descriptor has an aspect ratio of at least 1. The
  octagon of \<open>cv_scene\<close>, whose fitted ellipse has equal axes, is produced with the
  aspect ratio \<open>60 / 60.00001\<close>, below 1.
\<close>

theorem aspect_ratio_below_one:
  "detect_particles (ParticleDetector 0 0) cv_scene sample_frame
     = Inr [octagon_particle, quad_particle]
   \<and> aspect_ratio octagon_particle < 1"
  by (simp add: detect_scene octagon_particle_def)

text \<open>
  C5, amended. For every produced descriptor: without an ellipse (a boundary of fewer
  than five vertices) the aspect ratio is 1; with an ellipse it is the major axis
  divided by the minor axis plus \<open>10\<^sup>-\<^sup>5\<close>; and, the minor axis being non-negative, the
  aspect ratio is at least 1 exactly when there is no ellipse or the major axis exceeds
  the minor axis by at least \<open>10\<^sup>-\<^sup>5\<close>.
\<close>

theorem detect_particles_aspect_ratio:
  assumes "detect_particles self cv fr = Inr ps"
  shows "\<forall>p \<in> set ps.
           (ellipse p = None \<longrightarrow> length (contour p) < 5 \<and> aspect_ratio p = 1)
         \<and> (ellipse p \<noteq> None \<longrightarrow> 5 \<le> length (contour p)
               \<and> aspect_ratio p = major_axis p / (minor_axis p + 1 / 100000))
         \<and> (0 \<le> minor_axis p \<longrightarrow>
               (1 \<le> aspect_ratio p
                  \<longleftrightarrow> ellipse p = None \<or> minor_axis p + 1 / 100000 \<le> major_axis p))"
proof
  fix p
  assume pin: "p \<in> set ps"
  obtain c where mc: "measure_contour self cv fr c = Inr (Some p)"
    using detect_particles_mem [OF assms pin] by blast
  have fit: "fit_axes cv (contour p) (area p) =
      Inr (ellipse p, major_axis p, minor_axis p, aspect_ratio p, angle p)"
    using measure_contour_Some [OF mc] by simp
  note ax = fit_axes_Inr [OF fit]
  have iff: "1 \<le> aspect_ratio p
      \<longleftrightarrow> ellipse p = None \<or> minor_axis p + 1 / 100000 \<le> major_axis p"
    if nonneg: "0 \<le> minor_axis p"
  proof (cases "ellipse p = None")
    case True
    then show ?thesis using ax by simp
  next
    case False
    have pos: "0 < minor_axis p + 1 / 100000"
      using nonneg by simp
    have "aspect_ratio p = major_axis p / (minor_axis p + 1 / 100000)"
      using ax False by simp
    then show ?thesis
      using False pos by (auto simp: pos_le_divide_eq)
  qed
  show "(ellipse p = None \<longrightarrow> length (contour p) < 5 \<and> aspect_ratio p = 1)
         \<and> (ellipse p \<noteq> None \<longrightarrow> 5 \<le> length (contour p)
               \<and> aspect_ratio p = major_axis p / (minor_axis p + 1 / 100000))
         \<and> (0 \<le> minor_axis p \<longrightarrow>
               (1 \<le> aspect_ratio p
                  \<longleftrightarrow> ellipse p = None \<or> minor_axis p + 1 / 100000 \<le> major_axis p))"
    using ax iff by simp
qed

theorem detect_particles_aspect_ratio_witness:
  "detect_particles (ParticleDetector 0 0) cv_scene sample_frame
     = Inr [octagon_particle, quad_particle]
   \<and> ellipse quad_particle = None \<and> length (contour quad_particle) = 4
   \<and> aspect_ratio quad_particle = 1
   \<and> ellipse octagon_particle = Some ((100, 100), (60, 60), 0)
   \<and> length (contour octagon_particle) = 8
   \<and> aspect_ratio octagon_particle
       = major_axis octagon_particle / (minor_axis octagon_particle + 1 / 100000)
   \<and> 0 \<le> minor_axis octagon_particle
   \<and> \<not> 1 \<le> aspect_ratio octagon_particle
   \<and> \<not> minor_axis octagon_particle + 1 / 100000 \<le> major_axis octagon_particle"
  using detect_particles_aspect_ratio [OF detect_scene]
  by (simp add: detect_scene octagon_particle_def quad_particle_def octagon_def quad_def)

section \<open>Failures inside the detection pipeline\<close>

text \<open>
  C7, as stated: any failure inside the pipeline gives an empty list. Under
  \<open>cv_fault\<close> the ellipse fit raises on the third contour, after the octagon has been
  appended: the \<^verbatim>\<open>try\<close> block is left by an exception and the returned list is not
  empty.
\<close>

theorem partial_list_after_failure:
  "snd (detect_try (ParticleDetector 0 0) cv_fault sample_frame) = Some Cv2Error
   \<and> detect_particles (ParticleDetector 0 0) cv_fault sample_frame \<noteq> Inr []"
  by (simp add: detect_particles_eq detect_try_fault)

text \<open>
  C7, amended. The pipeline never raises to its caller. It returns the empty list when
  the segmentation stage fails, and otherwise the descriptors of the contours that
  precede the first contour on which the loop body raises (all contours when none
  does).
\<close>

theorem detect_particles_never_raises:
  "\<not> isl (detect_particles self cv fr)
   \<and> detect_particles self cv fr =
       Inr (case findContours cv fr of
              Inl e \<Rightarrow> []
            | Inr cs \<Rightarrow> appended self cv fr
                (takeWhile (\<lambda>c. \<not> isl (measure_contour self cv fr c)) cs))"
  by (cases "findContours cv fr")
    (simp_all add: detect_particles_eq detect_try_def detect_loop_fst)

theorem detect_particles_never_raises_witness:
  "\<not> isl (detect_particles (ParticleDetector 0 0) cv_fault sample_frame)
   \<and> detect_particles (ParticleDetector 0 0) cv_fault sample_frame = Inr [octagon_particle]
   \<and> findContours cv_fault sample_frame = Inr [octagon, speck, rev octagon, quad]
   \<and> takeWhile (\<lambda>c. \<not> isl (measure_contour (ParticleDetector 0 0) cv_fault sample_frame c))
        [octagon, speck, rev octagon, quad] = [octagon, speck]"
proof -
  have cs: "findContours cv_fault sample_frame = Inr [octagon, speck, rev octagon, quad]"
    by (simp add: cv_fault_def)
  show ?thesis
    using detect_particles_never_raises [of "ParticleDetector 0 0" cv_fault sample_frame]
    by (simp add: cs measure_fault_octagon measure_fault_speck measure_fault_rev
        appended_def)
qed

section \<open>Quantification of the empty collection\<close>

text \<open>
  C4. On the empty collection \<^verbatim>\<open>quantify_particles\<close> returns, without raising, a
  count of 0, zero averages and total area, and empty size and shape histograms; the
  result has no roughness histogram (nor the other keys that only the general case
  sets), whereas the result for a non-empty collection has one.
\<close>

theorem quantify_particles_empty:
  "quantify_particles [] =
     \<lparr>count = 0, average_size = 0, std_size = None, average_length = 0,
      average_width = 0, average_aspect_ratio = None, average_circularity = None,
      total_area = 0, min_size = None, max_size = None,
      size_distribution = Map.empty, shape_distribution = Map.empty,
      roughness_distribution = None, median_size = None, percentile_95 = None\<rparr>
   \<and> roughness_distribution (quantify_particles [quad_particle]) \<noteq> None"
  by (simp add: quantify_particles_def Let_def)

section \<open>Histograms partition the collection\<close>

text \<open>
  C10. For a non-empty collection the count is the number of particles; the size
  histogram has exactly the buckets tiny, small, medium and large, whose counts sum to
  the count; the values of the shape histogram, keyed by the observed shapes, sum to
  the count; the roughness histogram has the buckets smooth, rough and weathered, whose
  counts sum to the count, and the smooth bucket counts the particles without an
  intensity deviation together with those whose deviation is below 20.
\<close>

theorem quantify_particles_partitions:
  assumes "ps \<noteq> []"
  shows "count (quantify_particles ps) = length ps
       \<and> (\<exists>t s m l. size_distribution (quantify_particles ps)
                = [''tiny'' \<mapsto> t, ''small'' \<mapsto> s, ''medium'' \<mapsto> m, ''large'' \<mapsto> l]
              \<and> t + s + m + l = count (quantify_particles ps))
       \<and> (\<Sum>k \<in> dom (shape_distribution (quantify_particles ps)).
              the (shape_distribution (quantify_particles ps) k))
           = count (quantify_particles ps)
       \<and> dom (shape_distribution (quantify_particles ps)) = shape_type ` set ps
       \<and> (\<exists>sm ro we. roughness_distribution (quantify_particles ps)
                = Some [''smooth'' \<mapsto> sm, ''rough'' \<mapsto> ro, ''weathered'' \<mapsto> we]
              \<and> sm + ro + we = count (quantify_particles ps)
              \<and> sm = length (filter (\<lambda>p. case std_intensity p of
                                             None \<Rightarrow> True | Some x \<Rightarrow> x < 20) ps))"
proof -
  have smooth: "(\<lambda>p. get_std_intensity p < 20)
      = (\<lambda>p. case std_intensity p of None \<Rightarrow> True | Some x \<Rightarrow> x < 20)"
    by (auto simp: fun_eq_iff get_std_intensity_def split: option.splits)
  have d: "dom (count_shapes (map shape_type ps)) = shape_type ` set ps"
    by (auto simp: count_shapes_eq split: if_splits)
  show ?thesis
    using assms size_buckets_partition [of "map area ps"]
      roughness_buckets_partition [of get_std_intensity ps]
      count_shapes_sum [of "map shape_type ps"] d
    by (simp add: quantify_particles_def Let_def smooth) blast
qed

theorem quantify_particles_partitions_witness:
  "[octagon_particle, bare_particle] \<noteq> []
   \<and> count (quantify_particles [octagon_particle, bare_particle]) = 2
   \<and> size_distribution (quantify_particles [octagon_particle, bare_particle])
       = [''tiny'' \<mapsto> 1, ''small'' \<mapsto> 0, ''medium'' \<mapsto> 0, ''large'' \<mapsto> 1]
   \<and> (\<Sum>k \<in> dom (shape_distribution (quantify_particles [octagon_particle, bare_particle])).
          the (shape_distribution (quantify_particles [octagon_particle, bare_particle]) k)) = 2
   \<and> roughness_distribution (quantify_particles [octagon_particle, bare_particle])
       = Some [''smooth'' \<mapsto> 2, ''rough'' \<mapsto> 0, ''weathered'' \<mapsto> 0]"
proof -
  have ne: "[octagon_particle, bare_particle] \<noteq> []"
    by simp
  have sz: "size_distribution (quantify_particles [octagon_particle, bare_particle])
       = [''tiny'' \<mapsto> 1, ''small'' \<mapsto> 0, ''medium'' \<mapsto> 0, ''large'' \<mapsto> 1]"
    by (simp add: quantify_particles_def Let_def octagon_particle_def bare_particle_def
        quad_particle_def)
  have ro: "roughness_distribution (quantify_particles [octagon_particle, bare_particle])
       = Some [''smooth'' \<mapsto> 2, ''rough'' \<mapsto> 0, ''weathered'' \<mapsto> 0]"
    by (simp add: quantify_particles_def Let_def octagon_particle_def bare_particle_def
        quad_particle_def get_std_intensity_def std_flat numeral_2_eq_2)
  have cnt: "count (quantify_particles [octagon_particle, bare_particle]) = 2"
    by (simp add: quantify_particles_def Let_def)
  have "(\<Sum>k \<in> dom (shape_distribution (quantify_particles [octagon_particle, bare_particle])).
          the (shape_distribution (quantify_particles [octagon_particle, bare_particle]) k))
        = count (quantify_particles [octagon_particle, bare_particle])"
    using quantify_particles_partitions [OF ne] by (elim conjE)
  then show ?thesis
    using ne sz ro cnt by (simp only: simp_thms)
qed

section \<open>The history buffer\<close>

text \<open>
  C6. In every reachable detector the history buffer has capacity 100 and holds at most
  100 snapshots. An iteration that reads a frame appends its snapshot on the right and,
  when the buffer already holds 100, drops the oldest one on the left. For a buffer of
  any positive capacity: appending to a full buffer removes the oldest entry and keeps
  the others in order, appending to a buffer with room removes nothing.
\<close>

theorem history_never_exceeds_capacity:
  assumes "reachable s"
  shows "maxlen (particle_history s) = 100
       \<and> length (items (particle_history s)) \<le> 100
       \<and> (grabbed t = Some fr \<longrightarrow>
            items (particle_history (fst (capture_iteration cv t s))) =
              (if length (items (particle_history s)) = 100
               then tl (items (particle_history s)) else items (particle_history s))
              @ [\<lparr>snap_timestamp = stamp t,
                  snap_particles = projr (detect_particles s cv fr),
                  snap_count = length (projr (detect_particles s cv fr))\<rparr>])
       \<and> (0 < maxlen q \<and> length (items q) = maxlen q \<longrightarrow>
            items (deque_append q x) = tl (items q) @ [x])
       \<and> (length (items q) < maxlen q \<longrightarrow> items (deque_append q x) = items q @ [x])"
proof -
  have ok: "history_ok s"
    using assms by (rule reachable_history)
  have app: "items (deque_append (particle_history s) y) =
      (if length (items (particle_history s)) = 100
       then tl (items (particle_history s)) else items (particle_history s)) @ [y]" for y
  proof (cases "length (items (particle_history s)) = 100")
    case True
    then show ?thesis
      using ok deque_append_full [of "particle_history s" y] by (simp add: history_ok_def)
  next
    case False
    then show ?thesis
      using ok deque_append_room [of "particle_history s" y] by (simp add: history_ok_def)
  qed
  show ?thesis
    using ok app by (simp add: history_ok_def capture_iteration_grabbed deque_append_full
        deque_append_room)
qed

theorem history_never_exceeds_capacity_witness:
  "length (items (particle_history (fst (capture_iteration cv_scene (hd sample_ticks)
      (ParticleDetector 0 0))))) = 1
   \<and> maxlen (particle_history (fst (capture_iteration cv_scene (hd sample_ticks)
      (ParticleDetector 0 0)))) = 100
   \<and> map snap_count (items (particle_history
        (fst (capture_iteration cv_scene (hd (tl sample_ticks))
          (fst (capture_iteration cv_scene (hd sample_ticks) (ParticleDetector 0 0)))))))
       = [2, 2]
   \<and> items (deque_append \<lparr>maxlen = 3, items = [10, 20, 30 :: nat]\<rparr> 40) = [20, 30, 40]
   \<and> items (deque_append \<lparr>maxlen = 3, items = [10, 20 :: nat]\<rparr> 30) = [10, 20, 30]"
proof -
  let ?s1 = "fst (capture_iteration cv_scene (hd sample_ticks) (ParticleDetector 0 0))"
  have r1: "reachable ?s1"
    by (intro reachable.iteration reachable.created)
  have g1: "grabbed (hd sample_ticks) = Some sample_frame"
    and g2: "grabbed (hd (tl sample_ticks)) = Some sample_frame"
    by (simp_all add: sample_ticks_def)
  have h0: "particle_history (ParticleDetector 0 0) = \<lparr>maxlen = 100, items = []\<rparr>"
    by (simp add: ParticleDetector_def deque_new_def)
  have d1: "detect_particles ?s1 cv_scene sample_frame = Inr [octagon_particle, quad_particle]"
    by (rule detect_scene_any) (simp_all add: capture_iteration_bounds ParticleDetector_def)
  have h1: "items (particle_history ?s1) =
      [\<lparr>snap_timestamp = stamp (hd sample_ticks),
        snap_particles = [octagon_particle, quad_particle], snap_count = 2\<rparr>]"
    using history_never_exceeds_capacity [OF reachable.created [of 0 0],
        where t = "hd sample_ticks" and fr = sample_frame and cv = cv_scene
          and q = "\<lparr>maxlen = 3, items = [10, 20, 30 :: nat]\<rparr>" and x = 40]
    by (simp add: g1 h0 detect_scene)
  show ?thesis
    using history_never_exceeds_capacity [OF r1,
        where t = "hd (tl sample_ticks)" and fr = sample_frame and cv = cv_scene
          and q = "\<lparr>maxlen = 3, items = [10, 20, 30 :: nat]\<rparr>" and x = 40]
      history_never_exceeds_capacity [OF r1,
        where t = "hd (tl sample_ticks)" and fr = sample_frame and cv = cv_scene
          and q = "\<lparr>maxlen = 3, items = [10, 20 :: nat]\<rparr>" and x = 30]
    by (simp add: g2 h1 d1)
qed

section \<open>A camera that does not open\<close>

text \<open>
  C8, as stated: when the camera fails to open, the caller of start receives a failure
  result. The caller receives \<^verbatim>\<open>None\<close> with the camera that stays closed, and
  \<^verbatim>\<open>None\<close> with the camera that opens.
\<close>

theorem start_capture_same_result:
  "fails_to_open camera_closed (ParticleDetector 0 0)
   \<and> \<not> fails_to_open camera_ok (ParticleDetector 0 0)
   \<and> fst (start_capture camera_closed cv_scene sample_ticks (ParticleDetector 0 0)) = None
   \<and> fst (start_capture camera_ok cv_scene sample_ticks (ParticleDetector 0 0)) = None"
  by (simp add: start_capture_returns_none fails_to_open_def camera_closed_def camera_ok_def)

text \<open>
  C8, amended. When the camera fails to open and the detector is stopped, start returns
  \<^verbatim>\<open>None\<close> to its caller, as it does in every case; the detector stays stopped, and
  nothing of it changes but the stored handle (kept when the constructor returned one).
  No exception reaches the caller.
\<close>

theorem start_capture_open_failure:
  assumes "fails_to_open VideoCapture self" and "\<not> is_running self"
  shows "fst (start_capture VideoCapture cv ticks self) = None
       \<and> \<not> is_running (snd (start_capture VideoCapture cv ticks self))
       \<and> snd (start_capture VideoCapture cv ticks self) =
           self\<lparr>cap := (case VideoCapture (camera_id self) of
                           Inl e \<Rightarrow> cap self | Inr c \<Rightarrow> Some c)\<rparr>"
  using assms
  by (auto simp: start_capture_def capture_loop_def initialize_camera_def fails_to_open_def
      Let_def split: sum.splits)

theorem start_capture_open_failure_witness:
  "fails_to_open camera_closed (ParticleDetector 0 0)
   \<and> \<not> is_running (ParticleDetector 0 0)
   \<and> fst (start_capture camera_closed cv_scene sample_ticks (ParticleDetector 0 0)) = None
   \<and> \<not> is_running (snd (start_capture camera_closed cv_scene sample_ticks
          (ParticleDetector 0 0)))
   \<and> snd (start_capture camera_closed cv_scene sample_ticks (ParticleDetector 0 0))
       = ParticleDetector 0 0\<lparr>cap := Some \<lparr>isOpened = False\<rparr>\<rparr>
   \<and> fails_to_open camera_raises (ParticleDetector 0 0)
   \<and> snd (start_capture camera_raises cv_scene sample_ticks (ParticleDetector 0 0))
       = ParticleDetector 0 0"
proof -
  have f1: "fails_to_open camera_closed (ParticleDetector 0 0)"
    and f2: "fails_to_open camera_raises (ParticleDetector 0 0)"
    by (simp_all add: fails_to_open_def camera_closed_def camera_raises_def)
  have nr: "\<not> is_running (ParticleDetector 0 0)"
    by (simp add: ParticleDetector_def)
  show ?thesis
    using start_capture_open_failure [OF f1 nr, where cv = cv_scene and ticks = sample_ticks]
      start_capture_open_failure [OF f2 nr, where cv = cv_scene and ticks = sample_ticks]
      f1 f2 nr
    by (simp add: camera_closed_def camera_raises_def ParticleDetector_def)
qed

section \<open>Stopping keeps the published particles\<close>

text \<open>
  C9. \<^verbatim>\<open>stop_capture\<close> changes the running flag only, so the list that
  \<^verbatim>\<open>get_current_particles\<close> returns right after it is the published one. When the
  stop is requested during an iteration that read a frame, the list returned after that
  iteration, and after the loop has ended, is the one detected on that frame.
\<close>

theorem stop_capture_keeps_particles:
  "stop_capture self = self\<lparr>is_running := False\<rparr>
   \<and> get_current_particles (stop_capture self) = particles self
   \<and> (is_running self \<and> grabbed t = Some fr \<and> stop_called t \<longrightarrow>
        get_current_particles (stop_capture (fst (capture_iteration cv t self)))
          = projr (detect_particles self cv fr)
      \<and> get_current_particles (capture_finally (capture_while cv (t # ts) self))
          = projr (detect_particles self cv fr))"
proof (intro conjI impI)
  show "stop_capture self = self\<lparr>is_running := False\<rparr>"
    by (simp add: stop_capture_def)
  show "get_current_particles (stop_capture self) = particles self"
    by (simp add: stop_capture_def get_current_particles_def)
next
  assume a: "is_running self \<and> grabbed t = Some fr \<and> stop_called t"
  show "get_current_particles (stop_capture (fst (capture_iteration cv t self)))
          = projr (detect_particles self cv fr)"
    using a capture_iteration_grabbed(1) [of t fr cv self]
    by (simp add: stop_capture_def get_current_particles_def)
  show "get_current_particles (capture_finally (capture_while cv (t # ts) self))
          = projr (detect_particles self cv fr)"
    using a capture_while_stop_requested [of self t fr cv ts]
    by (simp only: get_current_particles_def capture_finally_particles)
qed

theorem stop_capture_keeps_particles_witness:
  "is_running running_detector
   \<and> grabbed (hd (tl sample_ticks)) = Some sample_frame
   \<and> stop_called (hd (tl sample_ticks))
   \<and> get_current_particles (stop_capture running_detector) = [octagon_particle]
   \<and> get_current_particles (stop_capture (fst (capture_iteration cv_scene
        (hd (tl sample_ticks)) running_detector)))
       = [octagon_particle, quad_particle]
   \<and> get_current_particles (capture_finally (capture_while cv_scene
        (hd (tl sample_ticks) # tl (tl sample_ticks)) running_detector))
       = [octagon_particle, quad_particle]"
proof -
  have r: "is_running running_detector"
    and p: "particles running_detector = [octagon_particle]"
    by (simp_all add: running_detector_def)
  have g: "grabbed (hd (tl sample_ticks)) = Some sample_frame"
    and st: "stop_called (hd (tl sample_ticks))"
    by (simp_all add: sample_ticks_def)
  note th = stop_capture_keeps_particles [where self = running_detector
      and t = "hd (tl sample_ticks)" and fr = sample_frame and cv = cv_scene
      and ts = "tl (tl sample_ticks)"]
  have a: "get_current_particles (stop_capture running_detector) = [octagon_particle]"
    using th [THEN conjunct2, THEN conjunct1] p by simp
  have b: "get_current_particles (stop_capture (fst (capture_iteration cv_scene
        (hd (tl sample_ticks)) running_detector)))
       = [octagon_particle, quad_particle]
     \<and> get_current_particles (capture_finally (capture_while cv_scene
        (hd (tl sample_ticks) # tl (tl sample_ticks)) running_detector))
       = [octagon_particle, quad_particle]"
    using th [THEN conjunct2, THEN conjunct2] r g st detect_running_detector by simp
  show ?thesis
    using r g st a b by simp
qed

end
